theory Spec2Isabelle
  imports Complex_Main "HOL-Library.Sublist"
begin

section \<open>The screenshot pipeline of images/index.js\<close>

text \<open>
  The script starts an express server, reads its settings from the command line,
  launches a browser, opens one page per sample file of the examples directory, waits
  for the page to finish rendering, saves a screenshot and looks at a stored MD5 sum.
  Every \<^verbatim>\<open>async\<close> function becomes a function from the state of the world to a
  result (an error or a value) and the new state; a rejected promise is \<open>Inl\<close>.
\<close>

subsection \<open>Constants\<close>

definition examplesDirectory :: string where
  "examplesDirectory = ''../examples/''"

definition destinationDirectory :: string where
  "destinationDirectory = ''./screenshots''"

definition md5Directory :: string where
  "md5Directory = ''./md5sum/lottie_web''"

subsection \<open>Values and errors\<close>

text \<open>
  A JavaScript number: NaN, the two infinities, or a finite value (every finite double
  is a rational). Both zeros are \<open>Fin 0\<close>.
\<close>

datatype jsnum = NaN | PosInf | NegInf | Fin rat

definition isNaN :: "jsnum \<Rightarrow> bool" where
  "isNaN v = (case v of NaN \<Rightarrow> True | _ \<Rightarrow> False)"

text \<open>The comparison \<^verbatim>\<open>value <= 0\<close>: false on NaN.\<close>

definition le_zero :: "jsnum \<Rightarrow> bool" where
  "le_zero v = (case v of NaN \<Rightarrow> False | PosInf \<Rightarrow> False | NegInf \<Rightarrow> True | Fin r \<Rightarrow> r \<le> 0)"

text \<open>
  What a rejected promise or a thrown exception carries. \<open>Uncaught msg\<close> is an error
  thrown where no handler of the script can catch it (an \<^verbatim>\<open>error\<close> event without a
  listener, an exception at the top level of the module): when a step gives it, the
  process has ended on that error and nothing of the script runs afterwards.
\<close>

datatype error =
    FsError string
  | OptionError string
  | BrowserError string
  | TimeoutError
  | Uncaught string

definition isUncaught :: "error \<Rightarrow> bool" where
  "isUncaught err = (case err of Uncaught _ \<Rightarrow> True | _ \<Rightarrow> False)"

text \<open>A value that may be \<^verbatim>\<open>null\<close>.\<close>

datatype 'a nullable = Null | Val 'a

text \<open>
  A string read with the \<^verbatim>\<open>utf8\<close> encoding, or a Buffer of bytes. \<open>Str s\<close> stands for
  the text that the bytes \<open>s\<close> decode to.
\<close>

datatype payload = Str string | Buf string

subsection \<open>String search\<close>

text \<open>
  \<^verbatim>\<open>s.indexOf(sub)\<close>: the first position at which \<open>sub\<close> starts in \<open>s\<close>, or -1.
\<close>

fun indexOfFrom :: "string \<Rightarrow> string \<Rightarrow> nat \<Rightarrow> int" where
  "indexOfFrom sub [] k = (if sub = [] then int k else -1)"
| "indexOfFrom sub (c # cs) k =
     (if prefix sub (c # cs) then int k else indexOfFrom sub cs (Suc k))"

definition indexOf :: "string \<Rightarrow> string \<Rightarrow> int" where
  "indexOf s sub = indexOfFrom sub s 0"

text \<open>\<^verbatim>\<open>xs.includes(v)\<close> on an array of strings.\<close>

definition arrayIncludes :: "string list \<Rightarrow> string \<Rightarrow> bool" where
  "arrayIncludes xs v = (v \<in> set xs)"

subsection \<open>Built-ins and the browser, as parameters\<close>

text \<open>
  The functions of the JavaScript runtime and of the libraries used by the script, and
  what the browser does with a page, are not part of the script. They are the fields of
  an environment:
  \<^item> \<open>toNumber\<close> is \<^verbatim>\<open>Number(val)\<close> on a string, \<open>numToString\<close> the conversion of
    a number inside a template literal, \<open>encodeURIComponent\<close> and \<open>md5\<close> the functions
    of these names;
  \<^item> \<open>launch_err\<close>, \<open>newPage_err\<close>, \<open>goto_err\<close>, \<open>close_err\<close> say whether
    \<^verbatim>\<open>puppeteer.launch\<close>, \<^verbatim>\<open>browser.newPage\<close>, \<^verbatim>\<open>page.goto\<close> and
    \<^verbatim>\<open>browser.close\<close> reject, and with what;
  \<^item> \<open>finished_within url t\<close> says whether \<^verbatim>\<open>window._finished === true\<close> is observed
    on the page at \<open>url\<close> before a timeout of \<open>t\<close> milliseconds;
  \<^item> \<open>screenshot url\<close> is the image that \<^verbatim>\<open>page.screenshot\<close> produces, or its error;
  \<^item> \<open>route_matches p url\<close> says whether express matches the request URL \<open>url\<close>
    against the route path \<open>p\<close>;
  \<^item> \<open>listen_err\<close> is the error of a server that cannot bind its port, \<open>mkdir_err\<close>
    the error of \<^verbatim>\<open>fs.mkdirSync\<close>, when there is one.
\<close>

record env =
  toNumber :: "string \<Rightarrow> jsnum"
  numToString :: "jsnum \<Rightarrow> string"
  encodeURIComponent :: "string \<Rightarrow> string"
  md5 :: "string \<Rightarrow> string"
  launch_err :: "error option"
  newPage_err :: "string \<Rightarrow> error option"
  goto_err :: "string \<Rightarrow> error option"
  finished_within :: "string \<Rightarrow> nat \<Rightarrow> bool"
  screenshot :: "string \<Rightarrow> error + string"
  close_err :: "error option"
  route_matches :: "string \<Rightarrow> string \<Rightarrow> bool"
  listen_err :: "string option"
  mkdir_err :: "string option"

subsection \<open>Settings\<close>

text \<open>A field of the settings holds the value of its option, or \<^verbatim>\<open>null\<close>.\<close>

record settings =
  renderer :: "string nullable"
  resolution :: "jsnum nullable"
  sampleRate :: "jsnum nullable"

text \<open>The \<^verbatim>\<open>type\<close> functions of the three option definitions.\<close>

definition resolution_type :: "env \<Rightarrow> string \<Rightarrow> jsnum" where
  "resolution_type e val =
     (let v = toNumber e val in if isNaN v \<or> le_zero v then Fin 1 else v)"

definition sampleRate_type :: "env \<Rightarrow> string \<Rightarrow> jsnum" where
  "sampleRate_type e val =
     (let v = toNumber e val in if isNaN v \<or> le_zero v then Fin 1 else v)"

definition renderer_type :: "string \<Rightarrow> string" where
  "renderer_type v = (if arrayIncludes [''svg'', ''canvas'', ''skottie''] v then v else ''svg'')"

text \<open>
  The command line, as \<^verbatim>\<open>command-line-args\<close> sees it. Each of the three options is
  absent (\<open>NotGiven\<close>), present without a value, as in \<^verbatim>\<open>node index.js --resolution\<close>
  (\<open>NoValue\<close>), or present with a value (\<open>Given v\<close>). \<open>cli_invalid\<close> holds the message
  of the exception the library throws on a command line it does not accept (an unknown
  option, an option given twice).
\<close>

datatype arg = NotGiven | NoValue | Given string

record cli =
  cli_resolution :: arg
  cli_sampleRate :: arg
  cli_renderer :: arg
  cli_invalid :: "string option"

text \<open>
  \<^verbatim>\<open>commandLineArgs(opts)\<close>: an object with one key per option present. For an option
  with a value the key holds the result of the option's \<^verbatim>\<open>type\<close> function on the
  value; for an option without a value the library does not call the \<^verbatim>\<open>type\<close>
  function and the key holds \<^verbatim>\<open>null\<close>.
\<close>

record parsed =
  p_resolution :: "jsnum nullable option"
  p_sampleRate :: "jsnum nullable option"
  p_renderer :: "string nullable option"

definition optionValue :: "(string \<Rightarrow> 'a) \<Rightarrow> arg \<Rightarrow> 'a nullable option" where
  "optionValue t a =
     (case a of NotGiven \<Rightarrow> None | NoValue \<Rightarrow> Some Null | Given v \<Rightarrow> Some (Val (t v)))"

definition commandLineArgs :: "env \<Rightarrow> cli \<Rightarrow> error + parsed" where
  "commandLineArgs e c =
     (case cli_invalid c of
        Some msg \<Rightarrow> Inl (OptionError msg)
      | None \<Rightarrow> Inr \<lparr> p_resolution = optionValue (resolution_type e) (cli_resolution c),
                      p_sampleRate = optionValue (sampleRate_type e) (cli_sampleRate c),
                      p_renderer = optionValue renderer_type (cli_renderer c) \<rparr>)"

definition defaultSettings :: settings where
  "defaultSettings =
     \<lparr> renderer = Val ''svg'', resolution = Val (Fin 1), sampleRate = Val (Fin 1) \<rparr>"

text \<open>The object spread: a key of the parsed options replaces the default.\<close>

definition spread :: "settings \<Rightarrow> parsed \<Rightarrow> settings" where
  "spread d p =
     \<lparr> renderer = (case p_renderer p of Some v \<Rightarrow> v | None \<Rightarrow> renderer d),
       resolution = (case p_resolution p of Some v \<Rightarrow> v | None \<Rightarrow> resolution d),
       sampleRate = (case p_sampleRate p of Some v \<Rightarrow> v | None \<Rightarrow> sampleRate d) \<rparr>"

definition getSettings :: "env \<Rightarrow> cli \<Rightarrow> error + settings" where
  "getSettings e c =
     (case commandLineArgs e c of
        Inl err \<Rightarrow> Inl err
      | Inr p \<Rightarrow> Inr (spread defaultSettings p))"

subsection \<open>The state of the world\<close>

text \<open>
  \<open>files\<close> and \<open>dirs\<close> are the file system: what reading a path and listing a
  directory give. \<open>routes\<close> and \<open>listening\<close> are the express application,
  \<open>browser_open\<close> and \<open>pages\<close> the browser with the URLs of the pages opened so far,
  \<open>written\<close> the paths of the screenshots saved so far, \<open>console\<close> the errors printed
  by the last line of the script, \<open>exited\<close> the code given to \<^verbatim>\<open>process.exit\<close>.
\<close>

record served =
  s_path :: string
  s_type :: string
  s_data :: payload

record world =
  files :: "string \<Rightarrow> error + string"
  dirs :: "string \<Rightarrow> error + string list"
  routes :: "served list"
  listening :: "string option"
  browser_open :: bool
  pages :: "string list"
  written :: "string list"
  console :: "error list"
  exited :: "nat option"

text \<open>One awaited step after another: the first rejection ends the sequence.\<close>

definition andThen ::
  "(world \<Rightarrow> (error + 'a) \<times> world) \<Rightarrow> ('a \<Rightarrow> world \<Rightarrow> (error + 'b) \<times> world)
     \<Rightarrow> world \<Rightarrow> (error + 'b) \<times> world" where
  "andThen m f w = (case m w of (Inl err, w1) \<Rightarrow> (Inl err, w1) | (Inr x, w1) \<Rightarrow> f x w1)"

text \<open>\<^verbatim>\<open>wait(time)\<close> resolves after a delay and changes nothing.\<close>

definition wait :: "nat \<Rightarrow> world \<Rightarrow> (error + unit) \<times> world" where
  "wait time w = (Inr (), w)"

text \<open>
  \<^verbatim>\<open>readFile(path, encoding)\<close>: a string when an encoding is given, a Buffer otherwise.
\<close>

definition readFile :: "world \<Rightarrow> string \<Rightarrow> string option \<Rightarrow> error + payload" where
  "readFile w p encoding =
     (case files w p of
        Inl err \<Rightarrow> Inl err
      | Inr bytes \<Rightarrow> Inr (case encoding of Some _ \<Rightarrow> Str bytes | None \<Rightarrow> Buf bytes))"

subsection \<open>The server\<close>

record fileEntry =
  path :: string
  filePath :: string
  fileType :: string

definition filesData :: "fileEntry list" where
  "filesData =
     [ \<lparr> path = ''/js/main.js'', filePath = ''./js/main.js'', fileType = ''js'' \<rparr>,
       \<lparr> path = ''/js/screenshot.js'', filePath = ''./js/screenshot.js'', fileType = ''js'' \<rparr>,
       \<lparr> path = ''/js/screenshot_skottie.js'', filePath = ''./js/screenshot_skottie.js'',
         fileType = ''js'' \<rparr>,
       \<lparr> path = ''/js/canvasSnapshot.js'', filePath = ''./js/canvasSnapshot.js'',
         fileType = ''js'' \<rparr>,
       \<lparr> path = ''/js/wait.js'', filePath = ''./js/wait.js'', fileType = ''js'' \<rparr>,
       \<lparr> path = ''/lottie.js'',
         filePath = ''node_modules/lottie-web/build/player/lottie.min.js'', fileType = ''js'' \<rparr>,
       \<lparr> path = ''/canvaskit.js'',
         filePath = ''node_modules/canvaskit-wasm/bin/full/canvaskit.js'', fileType = ''js'' \<rparr>,
       \<lparr> path = ''/lottie.json'', filePath = ''../examples/rectangle.json'',
         fileType = ''json'' \<rparr>,
       \<lparr> path = ''/screenshot.html'', filePath = ''./screenshot.html'', fileType = ''html'' \<rparr>,
       \<lparr> path = ''/canvasKit.wasm'',
         filePath = ''node_modules/canvaskit-wasm/bin/full/canvaskit.wasm'',
         fileType = ''wasm'' \<rparr> ]"

definition getEncoding :: "string \<Rightarrow> string option" where
  "getEncoding = map_of [(''js'', ''utf8''), (''json'', ''utf8''), (''html'', ''utf8'')]"

definition getContentTypeHeader :: "string \<Rightarrow> (string \<times> string) list option" where
  "getContentTypeHeader =
     map_of [(''js'', [(''Content-Type'', ''application/javascript'')]),
             (''json'', [(''Content-Type'', ''application/json'')]),
             (''html'', [(''Content-Type'', ''text/html; charset=utf-8'')]),
             (''wasm'', [(''Content-Type'', ''application/wasm'')])]"

record response =
  status :: nat
  headers :: "(string \<times> string) list"
  body :: payload

text \<open>\<^verbatim>\<open>res.writeHead(code, headers); res.end(data)\<close>.\<close>

definition writeHead_end :: "nat \<Rightarrow> (string \<times> string) list option \<Rightarrow> payload \<Rightarrow> response" where
  "writeHead_end code hs data =
     \<lparr> status = code, headers = (case hs of Some h \<Rightarrow> h | None \<Rightarrow> []), body = data \<rparr>"

text \<open>
  \<^verbatim>\<open>res.send(data)\<close> of express: the status is left at its initial 200 and the content
  type follows the kind of the data.
\<close>

definition send :: "payload \<Rightarrow> response" where
  "send data =
     \<lparr> status = 200,
       headers = (case data of
                    Str _ \<Rightarrow> [(''Content-Type'', ''text/html; charset=utf-8'')]
                  | Buf _ \<Rightarrow> [(''Content-Type'', ''application/octet-stream'')]),
       body = data \<rparr>"

text \<open>
  \<^verbatim>\<open>Promise.all(filesData.map(...))\<close>: every file of the manifest is read once; a
  file that cannot be read rejects the whole.
\<close>

fun readAll :: "world \<Rightarrow> fileEntry list \<Rightarrow> error + served list" where
  "readAll w [] = Inr []"
| "readAll w (f # fs) =
     (case readFile w (filePath f) (getEncoding (fileType f)) of
        Inl err \<Rightarrow> Inl err
      | Inr fileData \<Rightarrow>
          (case readAll w fs of
             Inl err \<Rightarrow> Inl err
           | Inr rs \<Rightarrow> Inr (\<lparr> s_path = path f, s_type = fileType f, s_data = fileData \<rparr> # rs)))"

text \<open>
  \<^verbatim>\<open>app.listen(port)\<close> is not awaited and the server has no listener for its
  \<^verbatim>\<open>error\<close> event: when the port cannot be bound, the event is emitted right after
  the call, nothing catches it and the process ends on it.
\<close>

definition listen :: "env \<Rightarrow> string \<Rightarrow> world \<Rightarrow> (error + unit) \<times> world" where
  "listen e port w =
     (case listen_err e of
        Some msg \<Rightarrow> (Inl (Uncaught msg), w)
      | None \<Rightarrow> (Inr (), w\<lparr> listening := Some port \<rparr>))"

definition startServer :: "env \<Rightarrow> world \<Rightarrow> (error + unit) \<times> world" where
  "startServer e w =
     (case readAll w filesData of
        Inl err \<Rightarrow> (Inl err, w)
      | Inr rs \<Rightarrow> listen e ''8080'' (w\<lparr> routes := rs \<rparr>))"

text \<open>The handler of a manifest route answers from the copy read at startup.\<close>

definition manifestHandler :: "served \<Rightarrow> response" where
  "manifestHandler r = writeHead_end 200 (getContentTypeHeader (s_type r)) (s_data r)"

text \<open>The handler of \<^verbatim>\<open>app.get('/*', ...)\<close>, on \<^verbatim>\<open>req.originalUrl\<close>.\<close>

definition catchAll :: "world \<Rightarrow> string \<Rightarrow> response" where
  "catchAll w originalUrl =
     (if indexOf originalUrl ''.json'' \<noteq> -1 then
        (case readFile w (''..'' @ originalUrl) (Some ''utf8'') of
           Inl err \<Rightarrow> send (Str '''')
         | Inr file \<Rightarrow> send file)
      else
        (case readFile w (''..'' @ originalUrl) None of
           Inl err \<Rightarrow> send (Str '''')
         | Inr data \<Rightarrow> writeHead_end 200 (Some [(''Content-Type'', ''image/jpeg'')]) data))"

text \<open>
  A GET request goes to the first manifest route that matches it, and to the catch-all
  route when none does.
\<close>

definition handleGet :: "env \<Rightarrow> world \<Rightarrow> string \<Rightarrow> response" where
  "handleGet e w url =
     (case find (\<lambda>r. route_matches e (s_path r) url) (routes w) of
        Some r \<Rightarrow> manifestHandler r
      | None \<Rightarrow> catchAll w url)"

subsection \<open>The browser\<close>

definition getBrowser :: "env \<Rightarrow> world \<Rightarrow> (error + unit) \<times> world" where
  "getBrowser e w =
     (case launch_err e of
        Some err \<Rightarrow> (Inl err, w)
      | None \<Rightarrow> (Inr (), w\<lparr> browser_open := True \<rparr>))"

text \<open>A value inside a template literal: \<^verbatim>\<open>null\<close> prints as \<^verbatim>\<open>null\<close>.\<close>

definition inTemplate :: "('a \<Rightarrow> string) \<Rightarrow> 'a nullable \<Rightarrow> string" where
  "inTemplate str v = (case v of Null \<Rightarrow> ''null'' | Val x \<Rightarrow> str x)"

definition targetURL :: "env \<Rightarrow> settings \<Rightarrow> string \<Rightarrow> string" where
  "targetURL e s p =
     ''http://localhost:8080/screenshot.html''
     @ ''?renderer='' @ inTemplate (\<lambda>v. v) (renderer s)
     @ ''&sampleRate='' @ inTemplate (numToString e) (sampleRate s)
     @ ''&resolution='' @ inTemplate (numToString e) (resolution s)
     @ ''&path='' @ encodeURIComponent e p"

text \<open>A page is known by the URL it was opened at.\<close>

definition startPage :: "env \<Rightarrow> settings \<Rightarrow> string \<Rightarrow> world \<Rightarrow> (error + string) \<times> world" where
  "startPage e s p w =
     (let url = targetURL e s p in
      case newPage_err e url of
        Some err \<Rightarrow> (Inl err, w)
      | None \<Rightarrow>
          (let w1 = w\<lparr> pages := pages w @ [url] \<rparr> in
           case goto_err e url of
             Some err \<Rightarrow> (Inl err, w1)
           | None \<Rightarrow> (Inr url, w1)))"

definition createFilmStrip :: "env \<Rightarrow> string \<Rightarrow> string \<Rightarrow> world \<Rightarrow> (error + unit) \<times> world" where
  "createFilmStrip e page p w =
     (if \<not> finished_within e page 20000 then (Inl TimeoutError, w)
      else
        (case screenshot e page of
           Inl err \<Rightarrow> (Inl err, w)
         | Inr img \<Rightarrow>
             (Inr (), w\<lparr> files := (files w)(p := Inr img), written := written w @ [p] \<rparr>)))"

definition browserClose :: "env \<Rightarrow> world \<Rightarrow> (error + unit) \<times> world" where
  "browserClose e w =
     (case close_err e of
        Some err \<Rightarrow> (Inl err, w)
      | None \<Rightarrow> (Inr (), w\<lparr> browser_open := False \<rparr>))"

subsection \<open>Files and checksums\<close>

definition getDirFiles :: "string \<Rightarrow> world \<Rightarrow> (error + string list) \<times> world" where
  "getDirFiles directory w = (dirs w directory, w)"

text \<open>\<^verbatim>\<open>fileBuffer.toString()\<close> gives the text of the bytes read.\<close>

definition getFileAsString :: "string \<Rightarrow> world \<Rightarrow> (error + string) \<times> world" where
  "getFileAsString p w =
     (case readFile w p None of
        Inl err \<Rightarrow> (Inr '''', w)
      | Inr (Buf bytes) \<Rightarrow> (Inr bytes, w)
      | Inr (Str s) \<Rightarrow> (Inr s, w))"

text \<open>\<^verbatim>\<open>md5File(filePath)\<close> of the md5-file package.\<close>

definition md5File :: "env \<Rightarrow> string \<Rightarrow> world \<Rightarrow> (error + string) \<times> world" where
  "md5File e p w =
     (case files w p of
        Inl err \<Rightarrow> (Inl err, w)
      | Inr bytes \<Rightarrow> (Inr (md5 e bytes), w))"

definition checkMD5Sum :: "env \<Rightarrow> string \<Rightarrow> string \<Rightarrow> world \<Rightarrow> (error + unit) \<times> world" where
  "checkMD5Sum e fileName fp =
     (let md5FilePath = md5Directory @ ''/'' @ fileName @ ''.md5'' in
      andThen (getFileAsString md5FilePath) (\<lambda>md5StoredValue.
        if md5StoredValue = '''' then (\<lambda>w. (Inr (), w))
        else
          andThen (md5File e fp) (\<lambda>md5Value.
            if md5Value \<noteq> md5StoredValue then (\<lambda>w. (Inr (), w))
            else (\<lambda>w. (Inr (), w)))))"

subsection \<open>The pipeline\<close>

definition processPage ::
  "env \<Rightarrow> settings \<Rightarrow> string \<Rightarrow> string \<Rightarrow> world \<Rightarrow> (error + unit) \<times> world" where
  "processPage e s directory file =
     andThen (startPage e s (directory @ file)) (\<lambda>page.
       let fp = destinationDirectory @ ''/'' @ file @ ''.png'' in
       andThen (createFilmStrip e page fp) (\<lambda>_.
         checkMD5Sum e file fp))"

text \<open>The \<^verbatim>\<open>for\<close> loop of \<^verbatim>\<open>iteratePages\<close> over the sample files, in order.\<close>

fun processAll ::
  "env \<Rightarrow> settings \<Rightarrow> string \<Rightarrow> string list \<Rightarrow> world \<Rightarrow> (error + unit) \<times> world" where
  "processAll e s directory [] w = (Inr (), w)"
| "processAll e s directory (file # rest) w =
     andThen (processPage e s directory file) (\<lambda>_. processAll e s directory rest) w"

definition jsonFiles :: "string list \<Rightarrow> string list" where
  "jsonFiles fs = filter (\<lambda>file. indexOf file ''.json'' \<noteq> -1) fs"

definition iteratePages :: "env \<Rightarrow> settings \<Rightarrow> world \<Rightarrow> (error + unit) \<times> world" where
  "iteratePages e s =
     andThen (getDirFiles examplesDirectory) (\<lambda>fs.
       processAll e s examplesDirectory (jsonFiles fs))"

definition processExit :: "nat \<Rightarrow> world \<Rightarrow> (error + unit) \<times> world" where
  "processExit code w = (Inr (), w\<lparr> exited := Some code \<rparr>)"

text \<open>The body of the \<^verbatim>\<open>try\<close> block of \<^verbatim>\<open>takeImageStrip\<close>.\<close>

definition tryBlock :: "env \<Rightarrow> cli \<Rightarrow> world \<Rightarrow> (error + unit) \<times> world" where
  "tryBlock e c =
     andThen (startServer e) (\<lambda>_.
     andThen (wait 500) (\<lambda>_.
     andThen (\<lambda>w. (getSettings e c, w)) (\<lambda>s.
     andThen (getBrowser e) (\<lambda>_.
     andThen (iteratePages e s) (\<lambda>_.
     andThen (browserClose e) (\<lambda>_.
     processExit 0))))))"

text \<open>
  The \<^verbatim>\<open>catch\<close> block prints the error and does nothing else. It does not run when
  the process has ended on an uncaught error, which gives the status 1.
\<close>

definition takeImageStrip :: "env \<Rightarrow> cli \<Rightarrow> world \<Rightarrow> world" where
  "takeImageStrip e c w =
     (case tryBlock e c w of
        (Inl err, w1) \<Rightarrow>
          if isUncaught err then w1\<lparr> exited := Some 1 \<rparr>
          else w1\<lparr> console := console w1 @ [err] \<rparr>
      | (Inr _, w1) \<Rightarrow> w1)"

text \<open>
  Lines 18 to 20, at the top level of the module: the screenshots directory is created
  when nothing exists at its path. An exception of \<^verbatim>\<open>fs.mkdirSync\<close> is thrown at the
  top level, where nothing catches it.
\<close>

definition existsSync :: "string \<Rightarrow> world \<Rightarrow> bool" where
  "existsSync p w = (\<not> isl (dirs w p) \<or> \<not> isl (files w p))"

definition ensureDestination :: "env \<Rightarrow> world \<Rightarrow> (error + unit) \<times> world" where
  "ensureDestination e w =
     (if \<not> existsSync destinationDirectory w then
        (case mkdir_err e of
           Some msg \<Rightarrow> (Inl (Uncaught msg), w)
         | None \<Rightarrow> (Inr (), w\<lparr> dirs := (dirs w)(destinationDirectory := Inr []) \<rparr>))
      else (Inr (), w))"

text \<open>
  The script from its first line to its last, which calls \<^verbatim>\<open>takeImageStrip()\<close>. In
  the state it returns, \<open>exited\<close> is the status with which the process has ended, if it
  has: the code given to \<^verbatim>\<open>process.exit\<close>, 1 after an uncaught error, and 0 when the
  script has come to its end without either and neither a listening server nor an open
  browser keeps the process alive.
\<close>

definition script :: "env \<Rightarrow> cli \<Rightarrow> world \<Rightarrow> world" where
  "script e c w =
     (case ensureDestination e w of
        (Inl err, w1) \<Rightarrow> w1\<lparr> exited := Some 1 \<rparr>
      | (Inr _, w1) \<Rightarrow>
          (let w2 = takeImageStrip e c w1 in
           if exited w2 = None \<and> listening w2 = None \<and> \<not> browser_open w2
           then w2\<lparr> exited := Some 0 \<rparr> else w2))"

subsection \<open>A sample run\<close>

text \<open>
  An environment and a file system on which the definitions can be evaluated: the
  examples directory lists \<^verbatim>\<open>a.json\<close>, \<^verbatim>\<open>b.json\<close> and \<^verbatim>\<open>c.txt\<close>, every file
  can be read but \<^verbatim>\<open>../missing.png\<close>, \<^verbatim>\<open>../missing.json\<close> and the stored
  checksums, and the browser never fails.
\<close>

definition sampleEnv :: env where
  "sampleEnv =
     \<lparr> toNumber = (\<lambda>val. if val = ''2'' then Fin 2 else if val = ''0.5'' then Fin (1 / 2)
                      else if val = ''0'' then Fin 0 else if val = ''-3'' then Fin (- 3)
                      else if val = ''Infinity'' then PosInf else NaN),
       numToString = (\<lambda>v. if v = Fin 1 then ''1'' else if v = Fin 2 then ''2''
                      else if v = Fin (1 / 2) then ''0.5'' else ''NaN''),
       encodeURIComponent = (\<lambda>p. concat (map (\<lambda>ch. if ch = CHR ''/'' then ''%2F'' else [ch]) p)),
       md5 = (\<lambda>bytes. ''0cc175b9c0f1b6a831c399e269772661''),
       launch_err = None,
       newPage_err = (\<lambda>url. None),
       goto_err = (\<lambda>url. None),
       finished_within = (\<lambda>url t. True),
       screenshot = (\<lambda>url. Inr ''PNG''),
       close_err = None,
       route_matches = (\<lambda>p url. p = url),
       listen_err = None,
       mkdir_err = None \<rparr>"

definition sampleWorld :: world where
  "sampleWorld =
     \<lparr> files = (\<lambda>p. if p = ''../missing.png'' \<or> p = ''../missing.json''
                       \<or> p = ''./md5sum/lottie_web/a.json.md5''
                       \<or> p = ''./md5sum/lottie_web/b.json.md5''
                    then Inl (FsError p) else Inr ''data''),
       dirs = (\<lambda>d. if d = ''../examples/'' then Inr [''a.json'', ''b.json'', ''c.txt'']
                   else Inl (FsError d)),
       routes = [],
       listening = None,
       browser_open = False,
       pages = [],
       written = [],
       console = [],
       exited = None \<rparr>"

definition sampleCli :: cli where
  "sampleCli =
     \<lparr> cli_resolution = Given ''2'', cli_sampleRate = Given ''abc'',
       cli_renderer = Given ''canvas'', cli_invalid = None \<rparr>"

text \<open>
  The command lines \<^verbatim>\<open>node index.js --resolution\<close>,
  \<^verbatim>\<open>node index.js --sampleRate\<close> and \<^verbatim>\<open>node index.js --renderer\<close>.
\<close>

definition resolutionFlagOnly :: cli where
  "resolutionFlagOnly =
     \<lparr> cli_resolution = NoValue, cli_sampleRate = NotGiven,
       cli_renderer = NotGiven, cli_invalid = None \<rparr>"

definition sampleRateFlagOnly :: cli where
  "sampleRateFlagOnly =
     \<lparr> cli_resolution = NotGiven, cli_sampleRate = NoValue,
       cli_renderer = NotGiven, cli_invalid = None \<rparr>"

definition rendererFlagOnly :: cli where
  "rendererFlagOnly =
     \<lparr> cli_resolution = NotGiven, cli_sampleRate = NotGiven,
       cli_renderer = NoValue, cli_invalid = None \<rparr>"

text \<open>The same, with a page for \<^verbatim>\<open>b.json\<close> that never finishes.\<close>

definition slowEnv :: env where
  "slowEnv =
     sampleEnv\<lparr> finished_within := (\<lambda>url t. url =
       ''http://localhost:8080/screenshot.html?renderer=canvas&sampleRate=1&resolution=2&path=..%2Fexamples%2Fa.json'') \<rparr>"


text \<open>The sample environment with port 8080 taken by another process.\<close>

definition busyEnv :: env where
  "busyEnv = sampleEnv\<lparr> listen_err := Some ''EADDRINUSE'' \<rparr>"

section \<open>Properties\<close>

subsection \<open>Auxiliary facts\<close>


lemma indexOfFrom_sublist: "indexOfFrom sub s k \<noteq> -1 \<longleftrightarrow> sublist sub s"
proof (induction s arbitrary: k)
  case Nil
  then show ?case by simp
next
  case (Cons c cs)
  then show ?case by (simp add: sublist_Cons_right)
qed

lemma indexOf_sublist: "indexOf s sub \<noteq> -1 \<longleftrightarrow> sublist sub s"
  by (simp add: indexOf_def indexOfFrom_sublist)

lemma getFileAsString_world: "snd (getFileAsString p w) = w"
  by (simp add: getFileAsString_def readFile_def split: sum.splits)

lemma md5File_world: "snd (md5File e p w) = w"
  by (simp add: md5File_def split: sum.splits)

lemma checkMD5Sum_world: "snd (checkMD5Sum e fileName fp w) = w"
  by (simp add: checkMD5Sum_def andThen_def getFileAsString_def readFile_def md5File_def
      split: sum.splits)

lemma checkMD5Sum_readable:
  "files w fp = Inr img \<Longrightarrow> checkMD5Sum e fileName fp w = (Inr (), w)"
  by (simp add: checkMD5Sum_def andThen_def getFileAsString_def readFile_def md5File_def
      split: sum.splits)

lemma checkMD5Sum_result:
  "checkMD5Sum e fileName fp w = (r, w') \<Longrightarrow> w' = w"
  using checkMD5Sum_world [of e fileName fp w] by simp

lemma startPage_Inr:
  "startPage e s p w = (Inr page, w') \<Longrightarrow>
     page = targetURL e s p \<and> w' = w\<lparr> pages := pages w @ [page] \<rparr>"
  by (auto simp add: startPage_def Let_def split: option.splits)

lemma startPage_frame:
  "startPage e s p w = (r, w') \<Longrightarrow>
     files w' = files w \<and> written w' = written w \<and> exited w' = exited w
     \<and> console w' = console w \<and> dirs w' = dirs w
     \<and> (pages w' = pages w \<or> pages w' = pages w @ [targetURL e s p])"
  by (auto simp add: startPage_def Let_def split: option.splits)

lemma createFilmStrip_Inl:
  "createFilmStrip e page p w = (Inl err, w') \<Longrightarrow> w' = w"
  by (auto simp add: createFilmStrip_def split: if_splits sum.splits)

lemma createFilmStrip_Inr:
  "createFilmStrip e page p w = (Inr u, w') \<Longrightarrow>
     (\<exists>img. screenshot e page = Inr img
        \<and> w' = w\<lparr> files := (files w)(p := Inr img), written := written w @ [p] \<rparr>)"
  by (auto simp add: createFilmStrip_def split: if_splits sum.splits)

lemma createFilmStrip_timeout:
  "\<not> finished_within e page 20000 \<Longrightarrow> createFilmStrip e page p w = (Inl TimeoutError, w)"
  by (simp add: createFilmStrip_def)

lemma processPage_Inr:
  assumes "processPage e s d f w = (Inr u, w')"
  shows "pages w' = pages w @ [targetURL e s (d @ f)]
     \<and> written w' = written w @ [destinationDirectory @ ''/'' @ f @ ''.png'']
     \<and> exited w' = exited w \<and> console w' = console w"
proof -
  obtain r1 w1 where sp: "startPage e s (d @ f) w = (r1, w1)" by (cases "startPage e s (d @ f) w")
  show ?thesis
  proof (cases r1)
    case (Inl err)
    with sp assms show ?thesis by (simp add: processPage_def andThen_def)
  next
    case (Inr page)
    note pg = startPage_Inr [OF sp [unfolded Inr]]
    let ?fp = "destinationDirectory @ ''/'' @ f @ ''.png''"
    obtain r2 w2 where cf: "createFilmStrip e page ?fp w1 = (r2, w2)"
      by (cases "createFilmStrip e page ?fp w1")
    show ?thesis
    proof (cases r2)
      case (Inl err)
      with sp Inr cf assms show ?thesis by (simp add: processPage_def andThen_def Let_def)
    next
      case (Inr u2)
      from cf Inr obtain img where w2: "w2 = w1\<lparr> files := (files w1)(?fp := Inr img),
          written := written w1 @ [?fp] \<rparr>"
        using createFilmStrip_Inr by blast
      from sp \<open>r1 = Inr page\<close> cf Inr assms have "checkMD5Sum e f ?fp w2 = (Inr u, w')"
        by (simp add: processPage_def andThen_def Let_def)
      then have "w' = w2" by (rule checkMD5Sum_result)
      with w2 pg show ?thesis by simp
    qed
  qed
qed

lemma processPage_frame:
  assumes "processPage e s d f w = (r, w')"
  shows "exited w' = exited w \<and> console w' = console w
     \<and> set (pages w') \<subseteq> set (pages w) \<union> {targetURL e s (d @ f)}
     \<and> set (written w') \<subseteq> set (written w) \<union> {destinationDirectory @ ''/'' @ f @ ''.png''}"
proof -
  obtain r1 w1 where sp: "startPage e s (d @ f) w = (r1, w1)" by (cases "startPage e s (d @ f) w")
  note fr = startPage_frame [OF sp]
  show ?thesis
  proof (cases r1)
    case (Inl err)
    with sp assms have "w' = w1" by (simp add: processPage_def andThen_def)
    with fr show ?thesis by auto
  next
    case (Inr page)
    let ?fp = "destinationDirectory @ ''/'' @ f @ ''.png''"
    obtain r2 w2 where cf: "createFilmStrip e page ?fp w1 = (r2, w2)"
      by (cases "createFilmStrip e page ?fp w1")
    show ?thesis
    proof (cases r2)
      case (Inl err)
      with cf have "w2 = w1" using createFilmStrip_Inl by blast
      moreover from sp \<open>r1 = Inr page\<close> cf Inl assms have "w' = w2"
        by (simp add: processPage_def andThen_def Let_def)
      ultimately show ?thesis using fr by auto
    next
      case (Inr u2)
      from cf Inr obtain img where w2: "w2 = w1\<lparr> files := (files w1)(?fp := Inr img),
          written := written w1 @ [?fp] \<rparr>"
        using createFilmStrip_Inr by blast
      from sp \<open>r1 = Inr page\<close> cf Inr assms have "checkMD5Sum e f ?fp w2 = (r, w')"
        by (simp add: processPage_def andThen_def Let_def)
      then have "w' = w2" by (rule checkMD5Sum_result)
      with w2 fr show ?thesis by auto
    qed
  qed
qed

lemma processAll_Inr:
  "processAll e s d fs w = (Inr u, w') \<Longrightarrow>
     pages w' = pages w @ map (\<lambda>f. targetURL e s (d @ f)) fs
     \<and> written w' = written w @ map (\<lambda>f. destinationDirectory @ ''/'' @ f @ ''.png'') fs"
proof (induction fs arbitrary: w)
  case Nil
  then show ?case by simp
next
  case (Cons f fs)
  obtain r1 w1 where pp: "processPage e s d f w = (r1, w1)" by (cases "processPage e s d f w")
  show ?case
  proof (cases r1)
    case (Inl err)
    with pp Cons.prems show ?thesis by (simp add: andThen_def)
  next
    case (Inr u1)
    with pp Cons.prems have "processAll e s d fs w1 = (Inr u, w')" by (simp add: andThen_def)
    from Cons.IH [OF this] processPage_Inr [OF pp [unfolded Inr]] show ?thesis by simp
  qed
qed

lemma processAll_frame:
  "processAll e s d fs w = (r, w') \<Longrightarrow>
     exited w' = exited w \<and> console w' = console w
     \<and> set (pages w') \<subseteq> set (pages w) \<union> (\<lambda>f. targetURL e s (d @ f)) ` set fs
     \<and> set (written w') \<subseteq> set (written w)
          \<union> (\<lambda>f. destinationDirectory @ ''/'' @ f @ ''.png'') ` set fs"
proof (induction fs arbitrary: w)
  case Nil
  then show ?case by auto
next
  case (Cons f fs)
  obtain r1 w1 where pp: "processPage e s d f w = (r1, w1)" by (cases "processPage e s d f w")
  note fr = processPage_frame [OF pp]
  show ?case
  proof (cases r1)
    case (Inl err)
    with pp Cons.prems have "w' = w1" by (simp add: andThen_def)
    with fr show ?thesis by auto
  next
    case (Inr u1)
    with pp Cons.prems have "processAll e s d fs w1 = (r, w')" by (simp add: andThen_def)
    from Cons.IH [OF this] fr show ?thesis by auto
  qed
qed

lemma processAll_append:
  "processAll e s d (xs @ ys) w =
     andThen (processAll e s d xs) (\<lambda>_. processAll e s d ys) w"
proof (induction xs arbitrary: w)
  case Nil
  then show ?case by (simp add: andThen_def)
next
  case (Cons x xs)
  then show ?case by (simp add: andThen_def split: prod.splits sum.splits)
qed






lemma jsonFiles_three:
  assumes "set fs = {''a.json'', ''b.json'', ''c.txt''}" and "distinct fs"
  shows "set (jsonFiles fs) = {''a.json'', ''b.json''} \<and> length (jsonFiles fs) = 2"
proof -
  have a: "indexOf ''a.json'' ''.json'' \<noteq> -1" by (simp add: indexOf_def)
  have b: "indexOf ''b.json'' ''.json'' \<noteq> -1" by (simp add: indexOf_def)
  have c: "indexOf ''c.txt'' ''.json'' = -1" by (simp add: indexOf_def)
  from assms(1) a b c have st: "set (jsonFiles fs) = {''a.json'', ''b.json''}"
    by (auto simp add: jsonFiles_def)
  from assms(2) have "distinct (jsonFiles fs)" by (simp add: jsonFiles_def)
  then have "length (jsonFiles fs) = card (set (jsonFiles fs))"
    by (simp add: distinct_card)
  with st show ?thesis by simp
qed

lemmas run_defs =
  iteratePages_def andThen_def getDirFiles_def examplesDirectory_def jsonFiles_def indexOf_def
  processPage_def startPage_def targetURL_def createFilmStrip_def checkMD5Sum_def
  getFileAsString_def readFile_def md5File_def destinationDirectory_def md5Directory_def
  Let_def startServer_def filesData_def getEncoding_def getBrowser_def browserClose_def
  processExit_def wait_def tryBlock_def getSettings_def commandLineArgs_def spread_def
  defaultSettings_def resolution_type_def sampleRate_type_def renderer_type_def
  arrayIncludes_def isNaN_def le_zero_def listen_def inTemplate_def optionValue_def
  isUncaught_def

subsection \<open>Settings\<close>

text \<open>
  What the three \<^verbatim>\<open>type\<close> functions return, by the value of \<^verbatim>\<open>Number(val)\<close> and
  by the name of the renderer, and what the settings hold for an option given with a
  value.
\<close>

lemma resolution_type_values:
  "resolution_type e val =
     (case toNumber e val of
        NaN \<Rightarrow> Fin 1 | NegInf \<Rightarrow> Fin 1 | PosInf \<Rightarrow> PosInf
      | Fin r \<Rightarrow> if 0 < r then Fin r else Fin 1)"
  by (simp add: resolution_type_def isNaN_def le_zero_def Let_def split: jsnum.splits)

lemma sampleRate_type_values:
  "sampleRate_type e val =
     (case toNumber e val of
        NaN \<Rightarrow> Fin 1 | NegInf \<Rightarrow> Fin 1 | PosInf \<Rightarrow> PosInf
      | Fin r \<Rightarrow> if 0 < r then Fin r else Fin 1)"
  by (simp add: sampleRate_type_def isNaN_def le_zero_def Let_def split: jsnum.splits)

lemma renderer_type_values:
  "renderer_type v = (if v = ''svg'' \<or> v = ''canvas'' \<or> v = ''skottie'' then v else ''svg'')"
  by (auto simp add: renderer_type_def arrayIncludes_def)

lemma getSettings_given:
  assumes "cli_invalid c = None"
  shows "cli_resolution c = Given val \<Longrightarrow>
           \<exists>st. getSettings e c = Inr st \<and> resolution st = Val (resolution_type e val)"
    and "cli_sampleRate c = Given val \<Longrightarrow>
           \<exists>st. getSettings e c = Inr st \<and> sampleRate st = Val (sampleRate_type e val)"
    and "cli_renderer c = Given val \<Longrightarrow>
           \<exists>st. getSettings e c = Inr st \<and> renderer st = Val (renderer_type val)"
  using assms by (simp_all add: getSettings_def commandLineArgs_def spread_def optionValue_def)

lemma numeric_type_samples:
  "resolution_type sampleEnv ''2'' = Fin 2 \<and> sampleRate_type sampleEnv ''0.5'' = Fin (1 / 2)
   \<and> resolution_type sampleEnv ''0'' = Fin 1 \<and> sampleRate_type sampleEnv ''-3'' = Fin 1
   \<and> resolution_type sampleEnv ''abc'' = Fin 1 \<and> sampleRate_type sampleEnv ''Infinity'' = PosInf"
  by (simp add: resolution_type_values sampleRate_type_values sampleEnv_def)

text \<open>
  Claim C3, at the command line \<^verbatim>\<open>node index.js --resolution\<close> and at
  \<^verbatim>\<open>node index.js --sampleRate\<close>. The option has no value, which is not a number:
  the claim gives 1. The settings hold \<^verbatim>\<open>null\<close>: the \<^verbatim>\<open>type\<close> function is not
  called, and the key of the parsed options replaces the default 1 in the spread.
\<close>

theorem numeric_option_without_value:
  "getSettings sampleEnv resolutionFlagOnly
     = Inr \<lparr> renderer = Val ''svg'', resolution = Null, sampleRate = Val (Fin 1) \<rparr>
   \<and> getSettings sampleEnv sampleRateFlagOnly
     = Inr \<lparr> renderer = Val ''svg'', resolution = Val (Fin 1), sampleRate = Null \<rparr>"
  by (simp add: getSettings_def commandLineArgs_def spread_def optionValue_def
      defaultSettings_def resolutionFlagOnly_def sampleRateFlagOnly_def)

text \<open>
  Claim C4, at the command line \<^verbatim>\<open>node index.js --renderer\<close>. The option has no value,
  which is none of the three renderers: the claim gives \<^verbatim>\<open>svg\<close>. The settings hold
  \<^verbatim>\<open>null\<close>, and the pages are opened with \<^verbatim>\<open>renderer=null\<close>.
\<close>

theorem renderer_option_without_value:
  "getSettings sampleEnv rendererFlagOnly
     = Inr \<lparr> renderer = Null, resolution = Val (Fin 1), sampleRate = Val (Fin 1) \<rparr>
   \<and> targetURL sampleEnv
       \<lparr> renderer = Null, resolution = Val (Fin 1), sampleRate = Val (Fin 1) \<rparr>
       ''../examples/a.json''
     = ''http://localhost:8080/screenshot.html?renderer=null&sampleRate=1&resolution=1&path=..%2Fexamples%2Fa.json''"
  by (simp add: getSettings_def commandLineArgs_def spread_def optionValue_def
      defaultSettings_def rendererFlagOnly_def targetURL_def inTemplate_def sampleEnv_def)

subsection \<open>The catch-all route\<close>

text \<open>
  Claim C6. A request to the catch-all route whose file cannot be read is answered with
  status 200 and an empty body; so is the request as the server dispatches it when no
  manifest route matches.
\<close>

theorem proxy_unreadable:
  "files w (''..'' @ url) = Inl err \<Longrightarrow>
     status (catchAll w url) = 200 \<and> body (catchAll w url) = Str []
     \<and> (find (\<lambda>r. route_matches e (s_path r) url) (routes w) = None \<longrightarrow>
          status (handleGet e w url) = 200 \<and> body (handleGet e w url) = Str [])"
  by (simp add: catchAll_def readFile_def send_def handleGet_def)

text \<open>The theorem above, on the sample run.\<close>

theorem proxy_unreadable_witness:
  "files sampleWorld ''../missing.png'' = Inl (FsError ''../missing.png'')
   \<and> status (handleGet sampleEnv sampleWorld ''/missing.png'') = 200
   \<and> body (handleGet sampleEnv sampleWorld ''/missing.png'') = Str []
   \<and> status (catchAll sampleWorld ''/missing.json'') = 200
   \<and> body (catchAll sampleWorld ''/missing.json'') = Str []"
proof -
  have png: "files sampleWorld (''..'' @ ''/missing.png'') = Inl (FsError ''../missing.png'')"
    by (simp add: sampleWorld_def)
  have json: "files sampleWorld (''..'' @ ''/missing.json'') = Inl (FsError ''../missing.json'')"
    by (simp add: sampleWorld_def)
  have none: "find (\<lambda>r. route_matches sampleEnv (s_path r) ''/missing.png'') (routes sampleWorld)
      = None"
    by (simp add: sampleWorld_def)
  from proxy_unreadable [OF png, of sampleEnv] proxy_unreadable [OF json, of sampleEnv] none png
  show ?thesis by simp
qed

text \<open>
  Claim C7. A request to the catch-all route whose file, looked up one level above the
  working directory, can be read: when the URL contains \<^verbatim>\<open>.json\<close> the file is sent as
  text, otherwise it is sent as bytes with the content type \<^verbatim>\<open>image/jpeg\<close>.
\<close>

theorem proxy_text_or_image:
  "files w (''..'' @ url) = Inr bytes \<Longrightarrow>
     (indexOf url ''.json'' \<noteq> -1 \<longrightarrow>
        catchAll w url = send (Str bytes) \<and> body (catchAll w url) = Str bytes)
   \<and> (indexOf url ''.json'' = -1 \<longrightarrow>
        status (catchAll w url) = 200
        \<and> headers (catchAll w url) = [(''Content-Type'', ''image/jpeg'')]
        \<and> body (catchAll w url) = Buf bytes)"
  by (simp add: catchAll_def readFile_def send_def writeHead_end_def)

text \<open>The theorem above, on the sample run.\<close>

theorem proxy_text_or_image_witness:
  "files sampleWorld ''../examples/a.json'' = Inr ''data''
   \<and> indexOf ''/examples/a.json'' ''.json'' \<noteq> -1
   \<and> body (catchAll sampleWorld ''/examples/a.json'') = Str ''data''
   \<and> indexOf ''/examples/images/img_0.png'' ''.json'' = -1
   \<and> headers (catchAll sampleWorld ''/examples/images/img_0.png'')
       = [(''Content-Type'', ''image/jpeg'')]
   \<and> body (catchAll sampleWorld ''/examples/images/img_0.png'') = Buf ''data''"
proof -
  have a: "files sampleWorld (''..'' @ ''/examples/a.json'') = Inr ''data''"
    by (simp add: sampleWorld_def)
  have i: "files sampleWorld (''..'' @ ''/examples/images/img_0.png'') = Inr ''data''"
    by (simp add: sampleWorld_def)
  have ja: "indexOf ''/examples/a.json'' ''.json'' \<noteq> -1" by (simp add: indexOf_def)
  have ji: "indexOf ''/examples/images/img_0.png'' ''.json'' = -1" by (simp add: indexOf_def)
  from proxy_text_or_image [OF a] proxy_text_or_image [OF i] a ja ji
  show ?thesis by (simp add: send_def)
qed

text \<open>
  Claim C9. For a request that matches no manifest route, the file read is the one at
  \<^verbatim>\<open>..\<close> followed by the URL as received, without any check on where that path
  leads; its content is served whenever it can be read, as text when \<^verbatim>\<open>.json\<close> occurs
  anywhere in the URL and as an image otherwise.
\<close>

theorem proxy_literal_path:
  "find (\<lambda>r. route_matches e (s_path r) url) (routes w) = None \<Longrightarrow>
     handleGet e w url =
       (case files w (''..'' @ url) of
          Inl err \<Rightarrow> send (Str [])
        | Inr bytes \<Rightarrow>
            if sublist ''.json'' url then send (Str bytes)
            else \<lparr> status = 200, headers = [(''Content-Type'', ''image/jpeg'')],
                   body = Buf bytes \<rparr>)"
  by (simp add: handleGet_def catchAll_def readFile_def writeHead_end_def indexOf_sublist
      split: sum.splits)

text \<open>The theorem above, on the sample run.\<close>

theorem proxy_literal_path_witness:
  "handleGet sampleEnv sampleWorld ''/images/index.js''
     = \<lparr> status = 200, headers = [(''Content-Type'', ''image/jpeg'')], body = Buf ''data'' \<rparr>
   \<and> handleGet sampleEnv sampleWorld ''/examples/a.json.png'' = send (Str ''data'')"
proof -
  have n1: "find (\<lambda>r. route_matches sampleEnv (s_path r) ''/images/index.js'')
      (routes sampleWorld) = None"
    by (simp add: sampleWorld_def)
  have n2: "find (\<lambda>r. route_matches sampleEnv (s_path r) ''/examples/a.json.png'')
      (routes sampleWorld) = None"
    by (simp add: sampleWorld_def)
  have f1: "files sampleWorld (''..'' @ ''/images/index.js'') = Inr ''data''"
    by (simp add: sampleWorld_def)
  have f2: "files sampleWorld (''..'' @ ''/examples/a.json.png'') = Inr ''data''"
    by (simp add: sampleWorld_def)
  have s1: "\<not> sublist ''.json'' ''/images/index.js''"
    unfolding indexOf_sublist [symmetric] by (simp add: indexOf_def)
  have s2: "sublist ''.json'' ''/examples/a.json.png''"
    unfolding indexOf_sublist [symmetric] by (simp add: indexOf_def)
  from proxy_literal_path [OF n1] proxy_literal_path [OF n2] f1 f2 s1 s2
  show ?thesis by simp
qed

subsection \<open>Checksums\<close>

text \<open>
  Claim C8. \<^verbatim>\<open>checkMD5Sum\<close> leaves the state of the world as it found it, whatever
  the stored checksum is; and when the screenshot can be read, as it can right after it
  was saved, it succeeds whether the stored checksum is missing, equal or different.
\<close>

theorem checkMD5Sum_no_effect:
  "snd (checkMD5Sum e fileName fp w) = w
   \<and> (files w fp = Inr img \<longrightarrow> checkMD5Sum e fileName fp w = (Inr (), w))"
  by (simp add: checkMD5Sum_world checkMD5Sum_readable)

text \<open>The theorem above, on the sample run.\<close>

theorem checkMD5Sum_no_effect_witness:
  "files sampleWorld ''./screenshots/c.json.png'' = Inr ''data''
   \<and> checkMD5Sum sampleEnv ''c.json'' ''./screenshots/c.json.png'' sampleWorld
       = (Inr (), sampleWorld)"
proof -
  have f: "files sampleWorld ''./screenshots/c.json.png'' = Inr ''data''"
    by (simp add: sampleWorld_def)
  from checkMD5Sum_no_effect [of sampleEnv "''c.json''" "''./screenshots/c.json.png''"
      sampleWorld "''data''"] f
  show ?thesis by simp
qed

text \<open>
  Claim C10. \<^verbatim>\<open>getFileAsString\<close> always returns a string, the empty one when the
  file cannot be read; and \<^verbatim>\<open>checkMD5Sum\<close> succeeds, taking the new-file branch, when
  the stored checksum cannot be read.
\<close>

theorem checkMD5Sum_missing_hash:
  "(\<exists>s. getFileAsString p w = (Inr s, w))
   \<and> (files w p = Inl err \<longrightarrow> getFileAsString p w = (Inr [], w))
   \<and> (files w (md5Directory @ ''/'' @ fileName @ ''.md5'') = Inl err \<longrightarrow>
        checkMD5Sum e fileName fp w = (Inr (), w))"
  by (simp add: checkMD5Sum_def andThen_def getFileAsString_def readFile_def
      split: sum.splits)

text \<open>The theorem above, on the sample run.\<close>

theorem checkMD5Sum_missing_hash_witness:
  "files sampleWorld ''./md5sum/lottie_web/a.json.md5''
     = Inl (FsError ''./md5sum/lottie_web/a.json.md5'')
   \<and> getFileAsString ''./md5sum/lottie_web/a.json.md5'' sampleWorld = (Inr [], sampleWorld)
   \<and> checkMD5Sum sampleEnv ''a.json'' ''./screenshots/a.json.png'' sampleWorld
       = (Inr (), sampleWorld)"
proof -
  have f: "files sampleWorld ''./md5sum/lottie_web/a.json.md5''
     = Inl (FsError ''./md5sum/lottie_web/a.json.md5'')"
    by (simp add: sampleWorld_def)
  have p: "files sampleWorld (md5Directory @ ''/'' @ ''a.json'' @ ''.md5'')
     = Inl (FsError ''./md5sum/lottie_web/a.json.md5'')"
    by (simp add: sampleWorld_def md5Directory_def)
  from checkMD5Sum_missing_hash [of "''./md5sum/lottie_web/a.json.md5''" sampleWorld
      "FsError ''./md5sum/lottie_web/a.json.md5''" "''a.json''" sampleEnv
      "''./screenshots/a.json.png''"] f p
  show ?thesis by simp
qed

subsection \<open>The run\<close>

text \<open>
  Claim C5. When the examples directory lists exactly \<^verbatim>\<open>a.json\<close>, \<^verbatim>\<open>b.json\<close> and
  \<^verbatim>\<open>c.txt\<close>, in any order, the loop runs over the two \<^verbatim>\<open>.json\<close> files only: pages
  and screenshots are made for these two and never for \<^verbatim>\<open>c.txt\<close>, and a run that
  succeeds has made exactly one of each for both.
\<close>

theorem listing_three_files:
  assumes "dirs w examplesDirectory = Inr fs"
    and "set fs = {''a.json'', ''b.json'', ''c.txt''}"
    and "distinct fs"
  shows "iteratePages e s w = processAll e s examplesDirectory (jsonFiles fs) w
     \<and> set (jsonFiles fs) = {''a.json'', ''b.json''} \<and> length (jsonFiles fs) = 2
     \<and> set (written (snd (iteratePages e s w))) \<subseteq>
         set (written w) \<union> {''./screenshots/a.json.png'', ''./screenshots/b.json.png''}
     \<and> set (pages (snd (iteratePages e s w))) \<subseteq>
         set (pages w) \<union> {targetURL e s ''../examples/a.json'', targetURL e s ''../examples/b.json''}
     \<and> (fst (iteratePages e s w) = Inr () \<longrightarrow>
         written (snd (iteratePages e s w)) =
           written w @ map (\<lambda>f. ''./screenshots/'' @ f @ ''.png'') (jsonFiles fs)
         \<and> pages (snd (iteratePages e s w)) =
           pages w @ map (\<lambda>f. targetURL e s (''../examples/'' @ f)) (jsonFiles fs))"
proof -
  have eq: "iteratePages e s w = processAll e s examplesDirectory (jsonFiles fs) w"
    using assms(1) by (simp add: iteratePages_def andThen_def getDirFiles_def)
  note three = jsonFiles_three [OF assms(2,3)]
  obtain r w' where run: "processAll e s examplesDirectory (jsonFiles fs) w = (r, w')"
    by (cases "processAll e s examplesDirectory (jsonFiles fs) w")
  from processAll_frame [OF run] three
  have sub: "set (written w') \<subseteq>
         set (written w) \<union> {''./screenshots/a.json.png'', ''./screenshots/b.json.png''}
     \<and> set (pages w') \<subseteq>
         set (pages w) \<union> {targetURL e s ''../examples/a.json'', targetURL e s ''../examples/b.json''}"
    by (auto simp add: destinationDirectory_def examplesDirectory_def)
  have ok: "r = Inr () \<longrightarrow>
         written w' = written w @ map (\<lambda>f. ''./screenshots/'' @ f @ ''.png'') (jsonFiles fs)
         \<and> pages w' = pages w @ map (\<lambda>f. targetURL e s (''../examples/'' @ f)) (jsonFiles fs)"
    using processAll_Inr [of e s examplesDirectory "jsonFiles fs" w "()" w'] run
    by (simp add: destinationDirectory_def examplesDirectory_def)
  from eq run three sub ok show ?thesis by simp
qed

text \<open>The theorem above, on the sample run.\<close>

theorem listing_three_files_witness:
  "dirs sampleWorld examplesDirectory = Inr [''a.json'', ''b.json'', ''c.txt'']
   \<and> fst (iteratePages sampleEnv defaultSettings sampleWorld) = Inr ()
   \<and> jsonFiles [''a.json'', ''b.json'', ''c.txt''] = [''a.json'', ''b.json'']
   \<and> written (snd (iteratePages sampleEnv defaultSettings sampleWorld))
       = [''./screenshots/a.json.png'', ''./screenshots/b.json.png'']"
proof -
  have d: "dirs sampleWorld examplesDirectory = Inr [''a.json'', ''b.json'', ''c.txt'']"
    by (simp add: sampleWorld_def examplesDirectory_def)
  have st: "set [''a.json'', ''b.json'', ''c.txt''] = {''a.json'', ''b.json'', ''c.txt''}"
    by simp
  have di: "distinct [''a.json'', ''b.json'', ''c.txt'']" by simp
  have jf: "jsonFiles [''a.json'', ''b.json'', ''c.txt''] = [''a.json'', ''b.json'']"
    by (simp add: jsonFiles_def indexOf_def)
  have ok: "fst (iteratePages sampleEnv defaultSettings sampleWorld) = Inr ()"
    by (simp add: run_defs sampleEnv_def sampleWorld_def)
  have w0: "written sampleWorld = []" by (simp add: sampleWorld_def)
  from listing_three_files [OF d st di, of sampleEnv defaultSettings] ok
  have "written (snd (iteratePages sampleEnv defaultSettings sampleWorld)) =
      written sampleWorld
      @ map (\<lambda>f. ''./screenshots/'' @ f @ ''.png'') (jsonFiles [''a.json'', ''b.json'', ''c.txt''])"
    by blast
  with jf w0 d ok show ?thesis by simp
qed

text \<open>
  Claim C1. When the server, the settings and the browser are up, the samples before
  \<open>f\<close> have been processed and the page of \<open>f\<close> is open, but its completion flag is
  not seen within the timeout of 20000 ms: the wait fails with a timeout, no screenshot
  is written for \<open>f\<close> (the files and the list of screenshots are those from before
  the sample), the loop stops there, and the whole run ends in the state reached when
  the page was opened, with the timeout printed by the \<^verbatim>\<open>catch\<close> block. No later
  sample is started and nothing is retried.
\<close>

theorem timeout_aborts_run:
  assumes server: "startServer e w = (Inr (), wa)"
    and opts: "getSettings e c = Inr s"
    and browser: "getBrowser e wa = (Inr (), w0)"
    and listing: "dirs w0 examplesDirectory = Inr fs"
    and split: "jsonFiles fs = pre @ f # post"
    and earlier: "processAll e s examplesDirectory pre w0 = (Inr (), w1)"
    and opened: "startPage e s (examplesDirectory @ f) w1 = (Inr page, w2)"
    and never: "\<not> finished_within e page 20000"
  shows "createFilmStrip e page (destinationDirectory @ ''/'' @ f @ ''.png'') w2
       = (Inl TimeoutError, w2)
     \<and> files w2 = files w1 \<and> written w2 = written w1
     \<and> processPage e s examplesDirectory f w1 = (Inl TimeoutError, w2)
     \<and> iteratePages e s w0 = (Inl TimeoutError, w2)
     \<and> takeImageStrip e c w = w2\<lparr> console := console w2 @ [TimeoutError] \<rparr>"
proof -
  have cf: "createFilmStrip e page (destinationDirectory @ ''/'' @ f @ ''.png'') w2
       = (Inl TimeoutError, w2)"
    using never by (rule createFilmStrip_timeout)
  have fr: "files w2 = files w1 \<and> written w2 = written w1"
    using startPage_frame [OF opened] by simp
  have pp: "processPage e s examplesDirectory f w1 = (Inl TimeoutError, w2)"
    using opened cf by (simp add: processPage_def andThen_def Let_def)
  have "processAll e s examplesDirectory (f # post) w1 = (Inl TimeoutError, w2)"
    using pp by (simp add: andThen_def)
  with earlier have "processAll e s examplesDirectory (pre @ f # post) w0 = (Inl TimeoutError, w2)"
    by (simp add: processAll_append andThen_def)
  with listing split have ip: "iteratePages e s w0 = (Inl TimeoutError, w2)"
    by (simp add: iteratePages_def andThen_def getDirFiles_def)
  have "tryBlock e c w = (Inl TimeoutError, w2)"
    using server opts browser ip by (simp add: tryBlock_def andThen_def wait_def)
  then have "takeImageStrip e c w = w2\<lparr> console := console w2 @ [TimeoutError] \<rparr>"
    by (simp add: takeImageStrip_def isUncaught_def)
  with cf fr pp ip show ?thesis by simp
qed

text \<open>The theorem above, on the sample run.\<close>

theorem timeout_aborts_run_witness:
  "\<not> finished_within slowEnv
       ''http://localhost:8080/screenshot.html?renderer=canvas&sampleRate=1&resolution=2&path=..%2Fexamples%2Fb.json''
       20000
   \<and> console (takeImageStrip slowEnv sampleCli sampleWorld) = [TimeoutError]
   \<and> written (takeImageStrip slowEnv sampleCli sampleWorld) = [''./screenshots/a.json.png'']
   \<and> exited (takeImageStrip slowEnv sampleCli sampleWorld) = None"
proof -
  let ?s = "\<lparr> renderer = Val ''canvas'', resolution = Val (Fin 2), sampleRate = Val (Fin 1) \<rparr>"
  let ?b = "''http://localhost:8080/screenshot.html?renderer=canvas&sampleRate=1&resolution=2&path=..%2Fexamples%2Fb.json''"
  define wa where "wa = snd (startServer slowEnv sampleWorld)"
  define w0 where "w0 = wa\<lparr> browser_open := True \<rparr>"
  define w1 where "w1 = snd (processAll slowEnv ?s examplesDirectory [''a.json''] w0)"
  define w2 where "w2 = w1\<lparr> pages := pages w1 @ [?b] \<rparr>"
  have server: "startServer slowEnv sampleWorld = (Inr (), wa)"
    by (simp add: wa_def startServer_def listen_def filesData_def readFile_def getEncoding_def
        sampleWorld_def slowEnv_def sampleEnv_def)
  have opts: "getSettings slowEnv sampleCli = Inr ?s"
    by (simp add: run_defs slowEnv_def sampleEnv_def sampleCli_def)
  have browser: "getBrowser slowEnv wa = (Inr (), w0)"
    by (simp add: getBrowser_def w0_def slowEnv_def sampleEnv_def)
  have w0_eq: "w0 = sampleWorld\<lparr> routes := routes wa, listening := Some ''8080'',
      browser_open := True \<rparr>"
    by (simp add: w0_def wa_def startServer_def listen_def filesData_def readFile_def
        getEncoding_def sampleWorld_def slowEnv_def sampleEnv_def)
  have listing: "dirs w0 examplesDirectory = Inr [''a.json'', ''b.json'', ''c.txt'']"
    by (simp add: w0_eq sampleWorld_def examplesDirectory_def)
  have split: "jsonFiles [''a.json'', ''b.json'', ''c.txt''] = [''a.json''] @ ''b.json'' # []"
    by (simp add: jsonFiles_def indexOf_def)
  have first: "fst (processAll slowEnv ?s examplesDirectory [''a.json''] w0) = Inr ()"
    by (simp add: w0_eq run_defs slowEnv_def sampleEnv_def sampleWorld_def)
  then have earlier: "processAll slowEnv ?s examplesDirectory [''a.json''] w0 = (Inr (), w1)"
    by (simp add: w1_def prod_eq_iff)
  have opened: "startPage slowEnv ?s (examplesDirectory @ ''b.json'') w1 = (Inr ?b, w2)"
    by (simp add: startPage_def targetURL_def inTemplate_def Let_def w2_def
        examplesDirectory_def slowEnv_def sampleEnv_def)
  have never: "\<not> finished_within slowEnv ?b 20000"
    by (simp add: slowEnv_def sampleEnv_def)
  have w1_facts: "written w1 = [''./screenshots/a.json.png''] \<and> console w1 = []
      \<and> exited w1 = None"
    using processAll_Inr [OF earlier] processAll_frame [OF earlier]
    by (simp add: w0_eq sampleWorld_def destinationDirectory_def)
  from timeout_aborts_run [OF server opts browser listing split earlier opened never]
  have "takeImageStrip slowEnv sampleCli sampleWorld = w2\<lparr> console := console w2 @ [TimeoutError] \<rparr>"
    by blast
  with w1_facts never show ?thesis by (simp add: w2_def)
qed




text \<open>
  The one status other than 0 that the script can end with: when port 8080 is taken,
  the process ends on the uncaught error of the server with status 1, and the
  \<^verbatim>\<open>catch\<close> block prints nothing.
\<close>

lemma port_taken:
  "console (script busyEnv sampleCli sampleWorld) = []
   \<and> exited (script busyEnv sampleCli sampleWorld) = Some 1"
  by (simp add: script_def ensureDestination_def existsSync_def destinationDirectory_def
      takeImageStrip_def tryBlock_def andThen_def startServer_def listen_def filesData_def
      readFile_def getEncoding_def busyEnv_def sampleWorld_def sampleEnv_def isUncaught_def
      Let_def)

end
